theory Spec2Isabelle
  imports Complex_Main "HOL-Library.Multiset"
begin

section \<open>Data model\<close>

text \<open>
  A shallow embedding of \<^verbatim>\<open>Simulation\<close> (single-market-robot-simulator, \<^verbatim>\<open>src/index.js\<close>).
  JavaScript numbers that carry prices, values, costs, money and times are modelled as
  exact reals (no rounding, no \<^verbatim>\<open>NaN\<close>, no infinities); counters and array indices are
  naturals. A value that may be \<^verbatim>\<open>undefined\<close> is an \<open>option\<close>. Console output is not
  modelled.
\<close>

subsection \<open>Log sink\<close>

datatype cell = Num real | Str string

type_synonym row = "cell list"

record log =
  header :: "string list option"
  rows :: "row list"

text \<open>
  Modelled from the spec: the LogSink collaborator (package \<^verbatim>\<open>simple-isomorphic-logger\<close>,
  not part of the sources) with its contract \<^verbatim>\<open>setHeader(columnNames)\<close>, \<^verbatim>\<open>write(row)\<close>.
  \<open>log_write\<close> appends the row it is given; a call whose argument is \<^verbatim>\<open>undefined\<close> (what the
  inner function \<^verbatim>\<open>ohlc()\<close> returns for an empty price sequence: "produces no row (skip, not
  zero-fill)") appends nothing. The header is kept apart from the rows.
\<close>

definition log_write :: "row option \<Rightarrow> log \<Rightarrow> log" where
  "log_write x lg = (case x of None \<Rightarrow> lg | Some r \<Rightarrow> lg\<lparr>rows := rows lg @ [r]\<rparr>)"

definition newLog :: "string list option \<Rightarrow> log" where
  "newLog h = \<lparr>header = h, rows = []\<rparr>"

definition orderHeader :: "string list" where
  "orderHeader = [''period'', ''t'', ''tp'', ''id'', ''x'', ''buyLimitPrice'', ''value'',
                  ''sellLimitPrice'', ''cost'']"

definition logHeaders :: "string \<Rightarrow> string list option" where
  "logHeaders name =
    (if name = ''ohlc'' then Some [''period'', ''open'', ''high'', ''low'', ''close'']
     else if name = ''buyorder'' then Some orderHeader
     else if name = ''sellorder'' then Some orderHeader
     else if name = ''rejectbuyorder'' then Some orderHeader
     else if name = ''rejectsellorder'' then Some orderHeader
     else if name = ''trade'' then
       Some [''period'', ''t'', ''tp'', ''price'', ''buyerAgentId'', ''buyerValue'',
             ''buyerProfit'', ''sellerAgentId'', ''sellerCost'', ''sellerProfit'']
     else if name = ''volume'' then Some [''period'', ''volume'']
     else if name = ''effalloc'' then Some [''period'', ''efficiencyOfAllocation'']
     else None)"

definition logNames :: "string list" where
  "logNames = [''trade'', ''buyorder'', ''sellorder'', ''rejectbuyorder'', ''rejectsellorder'',
               ''profit'', ''ohlc'', ''volume'', ''effalloc'']"

subsection \<open>Configuration\<close>

text \<open>
  \<^verbatim>\<open>config.buyerRate\<close> and \<^verbatim>\<open>config.sellerRate\<close> are optional and may be given as a number
  or as an array; \<^verbatim>\<open>positiveNumberArray\<close> (an external package) normalises them.
\<close>

datatype rate_spec = RateUndefined | RateNumber real | RateArray "real list"

record config =
  periods :: int
  periodDuration :: "real option"
  buyerAgentType :: "string list"
  sellerAgentType :: "string list"
  buyerRate :: rate_spec
  sellerRate :: rate_spec
  buyerValues :: "real list option"
  sellerCosts :: "real list option"
  numberOfBuyers :: "nat option"
  numberOfSellers :: "nat option"
  cfg_xMarket :: "(string \<times> real) list"
  cfg_integer :: bool
  ignoreBudgetConstraint :: bool
  keepPreviousOrders :: bool
  cfg_L :: real
  cfg_H :: real
  silent :: bool
  withoutOrderLogs :: bool
  cfg_realtime :: bool
  logDir :: "string option"
  logToFileSystem :: bool

subsection \<open>Collaborators: agents, pool, market\<close>

record inventory =
  inv_X :: real
  money :: real

text \<open>
  An agent of package \<^verbatim>\<open>market-agents\<close>: the capability set the simulation reads.
  \<open>unitValueFunction\<close> and \<open>unitCostFunction\<close> stand for the calls
  \<^verbatim>\<open>unitValueFunction('X', inventory)\<close> and \<^verbatim>\<open>unitCostFunction('X', inventory)\<close>.
\<close>

record agent =
  agent_id :: real
  agent_inventory :: inventory
  unitValueFunction :: "inventory \<Rightarrow> real"
  unitCostFunction :: "inventory \<Rightarrow> real"
  period_startTime :: real

record pool =
  agents :: "agent list"

text \<open>
  \<^verbatim>\<open>pool.agentsById[id]\<close>: \<^verbatim>\<open>Pool.push\<close> registers every agent under its id, a later one
  replacing an earlier one of the same id.
\<close>

definition agentsById :: "pool \<Rightarrow> real \<Rightarrow> agent option" where
  "agentsById p i = find (\<lambda>A. agent_id A = i) (rev (agents p))"

text \<open>
  The market of package \<^verbatim>\<open>market-example-contingent\<close>: \<open>xm_a\<close> is its order array
  \<^verbatim>\<open>xMarket.a\<close> (one numeric array per active order) and \<open>xm_idCol\<close> is \<^verbatim>\<open>xMarket.o.idCol\<close>.
\<close>

record market =
  xm_options :: "(string \<times> real) list"
  xm_idCol :: "nat option"
  xm_a :: "real list list"

record tradespec =
  ts_t :: real
  totalQ :: real
  buyA :: "nat list"
  sellA :: "nat list"
  prices :: "real list"

text \<open>The order object \<^verbatim>\<open>MEC.ao(orderArray)\<close>.\<close>

record order =
  ord_t :: real
  ord_id :: real
  buyPrice :: "real option"
  sellPrice :: "real option"

subsection \<open>The simulation object\<close>

record simulation =
  config :: config
  logs :: "string \<Rightarrow> log option"
  xMarket :: market
  pool :: pool
  numberOfBuyers_sim :: nat
  numberOfSellers_sim :: nat
  numberOfAgents :: nat
  periodDuration_sim :: real
  period :: nat
  periodTradePrices :: "real list"
  maximumPossibleGainsFromTrade :: "real option"
  realtime :: "real option"
  realtimeIntervalId :: "nat option"

datatype error =
  IdColUndefined
  | SingleUnitTradesRequired real
  | BuyeridUndefined
  | SelleridUndefined
  | UndefinedPrice
  | TypeError
  | CannotDetermineNumbers
  | UnexpectedRealtimeIntervalId
  | EndTimeRequired

text \<open>JavaScript truthiness of an optional number: \<^verbatim>\<open>undefined\<close> and \<^verbatim>\<open>0\<close> are falsy.\<close>

definition truthy :: "real option \<Rightarrow> bool" where
  "truthy x = (case x of None \<Rightarrow> False | Some v \<Rightarrow> v \<noteq> 0)"

text \<open>Array read \<^verbatim>\<open>xs[i]\<close>: \<^verbatim>\<open>undefined\<close> out of range.\<close>

definition elemAt :: "'a list \<Rightarrow> nat \<Rightarrow> 'a option" where
  "elemAt xs i = (if i < length xs then Some (xs ! i) else None)"

text \<open>\<^verbatim>\<open>sim.logs[name].write(row)\<close> on a log that exists.\<close>

definition writeLog :: "string \<Rightarrow> row option \<Rightarrow> simulation \<Rightarrow> simulation" where
  "writeLog name x sim =
    (case logs sim name of
       None \<Rightarrow> sim
     | Some lg \<Rightarrow> sim\<lparr>logs := (logs sim)(name \<mapsto> log_write x lg)\<rparr>)"

text \<open>The rows a log holds; none when the log does not exist.\<close>

definition logRows :: "simulation \<Rightarrow> string \<Rightarrow> row list" where
  "logRows sim name = (case logs sim name of None \<Rightarrow> [] | Some lg \<Rightarrow> rows lg)"

section \<open>Trade and order recording\<close>

text \<open>
  \<^verbatim>\<open>logTrade(tradespec)\<close>. Every \<^verbatim>\<open>throw\<close> precedes the first mutation, so a thrown
  error is returned together with the simulation as it was. \<^verbatim>\<open>xMarket.a[i][idCol]\<close> on a
  missing order row is a \<^verbatim>\<open>TypeError\<close>, as is a method call on an agent that
  \<^verbatim>\<open>agentsById\<close> does not hold.
\<close>

definition lookupId :: "market \<Rightarrow> nat \<Rightarrow> nat \<Rightarrow> error \<Rightarrow> error + real" where
  "lookupId m i idCol undef =
    (case elemAt (xm_a m) i of
       None \<Rightarrow> Inl TypeError
     | Some r \<Rightarrow> (case elemAt r idCol of None \<Rightarrow> Inl undef | Some v \<Rightarrow> Inr v))"

definition tradeOutput :: "tradespec \<Rightarrow> simulation \<Rightarrow> real \<Rightarrow> agent \<Rightarrow> real \<Rightarrow> agent \<Rightarrow> row" where
  "tradeOutput ts sim buyerid buyer sellerid seller =
    (let tradePrice = prices ts ! 0;
         tradeBuyerValue = unitValueFunction buyer (agent_inventory buyer);
         tradeBuyerProfit = tradeBuyerValue - tradePrice;
         tradeSellerCost = unitCostFunction seller (agent_inventory seller);
         tradeSellerProfit = tradePrice - tradeSellerCost
     in [Num (real (period sim)),
         Num (ts_t ts),
         Num (ts_t ts - real (period sim) * periodDuration_sim sim),
         Num tradePrice,
         Num buyerid,
         Num tradeBuyerValue,
         Num tradeBuyerProfit,
         Num sellerid,
         Num tradeSellerCost,
         Num tradeSellerProfit])"

definition logTrade :: "tradespec \<Rightarrow> simulation \<Rightarrow> error option \<times> simulation" where
  "logTrade ts sim =
    (case xm_idCol (xMarket sim) of
       None \<Rightarrow> (Some IdColUndefined, sim)
     | Some idCol \<Rightarrow>
        if totalQ ts \<noteq> 1 \<or> length (buyA ts) \<noteq> 1 \<or> length (sellA ts) \<noteq> 1
        then (Some (SingleUnitTradesRequired (totalQ ts)), sim)
        else
          case lookupId (xMarket sim) (buyA ts ! 0) idCol BuyeridUndefined of
            Inl e \<Rightarrow> (Some e, sim)
          | Inr buyerid \<Rightarrow>
             case lookupId (xMarket sim) (sellA ts ! 0) idCol SelleridUndefined of
               Inl e \<Rightarrow> (Some e, sim)
             | Inr sellerid \<Rightarrow>
                if \<not> truthy (elemAt (prices ts) 0) then (Some UndefinedPrice, sim)
                else
                  case agentsById (pool sim) buyerid of
                    None \<Rightarrow> (Some TypeError, sim)
                  | Some buyer \<Rightarrow>
                     case agentsById (pool sim) sellerid of
                       None \<Rightarrow> (Some TypeError, sim)
                     | Some seller \<Rightarrow>
                        (None,
                         writeLog ''trade''
                           (Some (tradeOutput ts sim buyerid buyer sellerid seller))
                           (sim\<lparr>periodTradePrices :=
                                  periodTradePrices sim @ [prices ts ! 0]\<rparr>)))"

text \<open>
  \<^verbatim>\<open>logOrder(prefix, orderArray)\<close>; the function has no \<^verbatim>\<open>throw\<close> and reads no property
  of a value that can be \<^verbatim>\<open>undefined\<close>.
\<close>

definition logOrder :: "string \<Rightarrow> order \<Rightarrow> simulation \<Rightarrow> simulation" where
  "logOrder prefix ord sim =
    (let agent = agentsById (pool sim) (ord_id ord);
         buyLog = prefix @ ''buyorder'';
         sellLog = prefix @ ''sellorder'';
         sim1 =
           (case agent of
              Some A \<Rightarrow>
                if truthy (buyPrice ord) \<and> logs sim buyLog \<noteq> None
                then writeLog buyLog
                       (Some [Num (real (period sim)),
                              Num (ord_t ord),
                              Num (ord_t ord - real (period sim) * periodDuration_sim sim),
                              Num (ord_id ord),
                              Num (inv_X (agent_inventory A)),
                              Num (the (buyPrice ord)),
                              Num (unitValueFunction A (agent_inventory A)),
                              Str '''',
                              Str '''']) sim
                else sim
            | None \<Rightarrow> sim)
     in (case agent of
           Some A \<Rightarrow>
             if truthy (sellPrice ord) \<and> logs sim1 sellLog \<noteq> None
             then writeLog sellLog
                    (Some [Num (real (period sim1)),
                           Num (ord_t ord),
                           Num (ord_t ord - real (period sim1) * periodDuration_sim sim1),
                           Num (ord_id ord),
                           Num (inv_X (agent_inventory A)),
                           Str '''',
                           Str '''',
                           Num (the (sellPrice ord)),
                           Num (unitCostFunction A (agent_inventory A))]) sim1
             else sim1
         | None \<Rightarrow> sim1))"

section \<open>Period-end metrics\<close>

text \<open>
  \<^verbatim>\<open>getMaximumPossibleGainsFromTrade()\<close>. The cache test is a truthiness test of the stored
  number. The two \<^verbatim>\<open>sort\<close> calls order a copy of the values descending and a copy of the
  costs ascending.
\<close>

fun gainsLoop :: "real list \<Rightarrow> real list \<Rightarrow> real \<Rightarrow> real" where
  "gainsLoop (v # vs) (c # cs) result =
     (if v > c then gainsLoop vs cs (result + (v - c)) else result)"
| "gainsLoop _ _ result = result"

definition getMaximumPossibleGainsFromTrade :: "simulation \<Rightarrow> real \<times> simulation" where
  "getMaximumPossibleGainsFromTrade sim =
    (if truthy (maximumPossibleGainsFromTrade sim)
     then (the (maximumPossibleGainsFromTrade sim), sim)
     else
       (let result =
              (case (buyerValues (config sim), sellerCosts (config sim)) of
                 (Some bv, Some sc) \<Rightarrow> gainsLoop (rev (sort bv)) (sort sc) 0
               | _ \<Rightarrow> 0)
        in (result, sim\<lparr>maximumPossibleGainsFromTrade := Some result\<rparr>)))"

text \<open>The inner function \<^verbatim>\<open>ohlc()\<close> of \<^verbatim>\<open>logPeriod\<close>.\<close>

definition ohlc :: "simulation \<Rightarrow> row option" where
  "ohlc sim =
    (case periodTradePrices sim of
       [] \<Rightarrow> None
     | p # ps \<Rightarrow>
        Some [Num (real (period sim)),
              Num p,
              Num (fold max ps p),
              Num (fold min ps p),
              Num (last (p # ps))])"

definition logPeriod :: "simulation \<Rightarrow> simulation" where
  "logPeriod sim =
    (let finalMoney = map (\<lambda>A. money (agent_inventory A)) (agents (pool sim));
         s1 = writeLog ''profit'' (Some (map Num finalMoney)) sim;
         s2 = writeLog ''ohlc'' (ohlc s1) s1;
         s3 = writeLog ''volume''
                (Some [Num (real (period s2)), Num (real (length (periodTradePrices s2)))]) s2;
         s4 =
           (if logs s3 ''effalloc'' \<noteq> None
            then
              (let finalMoneySum = fold (\<lambda>m acc. acc + m) finalMoney 0;
                   (maxPossible, s3') = getMaximumPossibleGainsFromTrade s3
               in if maxPossible > 0
                  then writeLog ''effalloc''
                         (Some [Num (real (period s3')),
                                Num (100 * (finalMoneySum / maxPossible))]) s3'
                  else s3')
            else s3)
     in s4\<lparr>periodTradePrices := []\<rparr>)"

section \<open>External collaborators\<close>

record agent_options =
  opt_integer :: bool
  opt_ignoreBudgetConstraint :: bool
  opt_period_duration :: real
  opt_minPrice :: real
  opt_maxPrice :: real
  opt_rate :: "real option"

text \<open>
  The packages the simulation calls, as parameters: nothing is assumed about them.
  \<open>AgentFactoryWarehouse\<close> is the table of registered agent constructors; a constructor
  also receives the number of agents created before it in this simulation, which stands
  for the hidden state (the id counter) of package \<^verbatim>\<open>market-agents\<close>.
  \<open>Pool_endTime\<close> may return \<^verbatim>\<open>undefined\<close>.
\<close>

record ext =
  positiveNumberArray :: "rate_spec \<Rightarrow> real list option"
  AgentFactoryWarehouse :: "string \<Rightarrow> (nat \<Rightarrow> agent_options \<Rightarrow> agent) option"
  Market_new :: "(string \<times> real) list \<Rightarrow> market"
  Market_clear :: "market \<Rightarrow> market"
  Pool_distribute :: "string \<Rightarrow> real list option \<Rightarrow> agent list \<Rightarrow> agent list"
  Pool_initPeriod :: "nat \<Rightarrow> pool \<Rightarrow> pool"
  Pool_endPeriod :: "pool \<Rightarrow> pool"
  Pool_endTime :: "pool \<Rightarrow> real option"
  Pool_trade :: "tradespec \<Rightarrow> pool \<Rightarrow> pool"

text \<open>
  What the agents and the market do while the pool runs, as a script: the events the
  market emits, in order, and between them arbitrary changes of the pool and of the market
  (agents waking, orders entering and leaving the book).
\<close>

datatype step =
  Trade tradespec
  | Preorder order
  | Reject order
  | Substrate "pool \<Rightarrow> pool" "market \<Rightarrow> market"

text \<open>The listeners registered in \<^verbatim>\<open>initMarket\<close>.\<close>

definition deliver :: "ext \<Rightarrow> step \<Rightarrow> simulation \<Rightarrow> error option \<times> simulation" where
  "deliver E st sim =
    (case st of
       Trade ts \<Rightarrow>
         (case logTrade ts sim of
            (Some e, s) \<Rightarrow> (Some e, s)
          | (None, s) \<Rightarrow> (None, s\<lparr>pool := Pool_trade E ts (pool s)\<rparr>))
     | Preorder ord \<Rightarrow>
         (if withoutOrderLogs (config sim) then (None, sim) else (None, logOrder [] ord sim))
     | Reject ord \<Rightarrow>
         (if withoutOrderLogs (config sim) then (None, sim)
          else (None, logOrder ''reject'' ord sim))
     | Substrate f g \<Rightarrow> (None, sim\<lparr>pool := f (pool sim), xMarket := g (xMarket sim)\<rparr>))"

text \<open>
  \<^verbatim>\<open>pool.syncRun(t)\<close> and \<^verbatim>\<open>pool.runAsPromise(t, 10)\<close>: the script runs until a listener
  throws.
\<close>

fun syncRun :: "ext \<Rightarrow> step list \<Rightarrow> simulation \<Rightarrow> error option \<times> simulation" where
  "syncRun E [] sim = (None, sim)"
| "syncRun E (st # sts) sim =
    (case deliver E st sim of
       (Some e, s) \<Rightarrow> (Some e, s)
     | (None, s) \<Rightarrow> syncRun E sts s)"

section \<open>The period scheduler\<close>

text \<open>
  How a call ends. For a synchronous call \<open>Done\<close> is a normal return and \<open>Failed\<close> a
  thrown error; for a call that returns a promise they are its resolution and its
  rejection, \<open>Pending\<close> is a promise not settled by the timer ticks that have happened, and
  \<open>Uncaught\<close> an error thrown inside a timer callback.
\<close>

datatype completion = Done | Failed error | Pending | Uncaught error

text \<open>
  What the host and the collaborators do during one call of \<^verbatim>\<open>runPeriod\<close>: the script of
  the pool's run; for the real-time discipline \<^verbatim>\<open>Date.now()/1000\<close> at the call, the handle
  \<^verbatim>\<open>setInterval\<close> returns (handles are truthy), what \<^verbatim>\<open>setInterval(undefined, 40)\<close> yields
  (a handle in browsers, nothing where it throws), and for every firing of the interval
  \<^verbatim>\<open>Date.now()/1000\<close> and the script of that firing's \<^verbatim>\<open>syncRun\<close>.
\<close>

record drive =
  steps :: "step list"
  dateNow :: real
  timerId :: nat
  timerForUndefined :: "nat option"
  ticks :: "(real \<times> step list) list"

definition atEndOfPeriod :: "ext \<Rightarrow> simulation \<Rightarrow> simulation" where
  "atEndOfPeriod E sim = logPeriod (sim\<lparr>pool := Pool_endPeriod E (pool sim)\<rparr>)"

text \<open>The handler \<^verbatim>\<open>onRealtimeWake(endTime)\<close> returns, run at every firing of the interval.\<close>

fun onRealtimeWake ::
  "ext \<Rightarrow> real \<Rightarrow> (real \<times> step list) list \<Rightarrow> simulation \<Rightarrow> completion \<times> simulation" where
  "onRealtimeWake E endTime [] sim = (Pending, sim)"
| "onRealtimeWake E endTime ((wall, sts) # rest) sim =
    (if (case realtime sim of None \<Rightarrow> False | Some off \<Rightarrow> wall - off \<ge> endTime)
     then
       (case syncRun E sts (sim\<lparr>realtimeIntervalId := None\<rparr>) of
          (Some e, s) \<Rightarrow> (Uncaught e, s)
        | (None, s) \<Rightarrow> (Done, atEndOfPeriod E s))
     else
       (case syncRun E sts sim of
          (Some e, s) \<Rightarrow> (Uncaught e, s)
        | (None, s) \<Rightarrow> onRealtimeWake E endTime rest s))"

text \<open>
  \<^verbatim>\<open>runPeriod(sync)\<close>. The counter is incremented, the pool initialised and the market
  cleared before the discipline is chosen. In the real-time branch the guard on
  \<^verbatim>\<open>realtimeIntervalId\<close> calls \<^verbatim>\<open>clearInterval\<close> (the host's timer stops) and rejects; the
  field itself is not deleted there.
\<close>

definition runPeriod :: "ext \<Rightarrow> bool \<Rightarrow> drive \<Rightarrow> simulation \<Rightarrow> completion \<times> simulation" where
  "runPeriod E sync drv sim =
    (let s1 = sim\<lparr>period := period sim + 1\<rparr>;
         s2 = s1\<lparr>pool := Pool_initPeriod E (period s1) (pool s1)\<rparr>;
         s3 = s2\<lparr>xMarket := Market_clear E (xMarket s2)\<rparr>
     in if sync then
          (case syncRun E (steps drv) s3 of
             (Some e, s) \<Rightarrow> (Failed e, s)
           | (None, s) \<Rightarrow> (Done, atEndOfPeriod E s))
        else if \<not> cfg_realtime (config s3) then
          (case syncRun E (steps drv) s3 of
             (Some e, s) \<Rightarrow> (Failed e, s)
           | (None, s) \<Rightarrow> (Done, atEndOfPeriod E s))
        else if realtimeIntervalId s3 \<noteq> None then (Failed UnexpectedRealtimeIntervalId, s3)
        else
          (case agents (pool s3) of
             [] \<Rightarrow> (Failed TypeError, s3)
           | A0 # _ \<Rightarrow>
              (let s4 = s3\<lparr>realtime := Some (dateNow drv - period_startTime A0)\<rparr>
               in if \<not> truthy (Pool_endTime E (pool s4))
                  then (Failed EndTimeRequired,
                        s4\<lparr>realtimeIntervalId := timerForUndefined drv\<rparr>)
                  else onRealtimeWake E (the (Pool_endTime E (pool s4))) (ticks drv)
                         (s4\<lparr>realtimeIntervalId := Some (timerId drv)\<rparr>))))"

section \<open>Running all periods\<close>

text \<open>
  The parameter of \<^verbatim>\<open>run\<close> is destructured with a default object: the default is taken
  when no argument is passed, and otherwise each of the three names is read from the
  object passed. A callback is modelled by its effect on the simulation, which it returns.
\<close>

record run_options =
  opt_sync :: "bool option"
  opt_update :: "(simulation \<Rightarrow> simulation) option"
  opt_delay :: "real option"

definition run_defaults :: run_options where
  "run_defaults = \<lparr>opt_sync = Some False, opt_update = Some (\<lambda>s. s), opt_delay = Some 20\<rparr>"

definition run_params :: "run_options option \<Rightarrow> run_options" where
  "run_params arg = (case arg of None \<Rightarrow> run_defaults | Some opts \<Rightarrow> opts)"

text \<open>
  The \<^verbatim>\<open>while\<close> loop of the synchronous branch; \<open>k\<close> counts the calls of \<^verbatim>\<open>runPeriod\<close>
  made so far. A callback may set the counter back, so the loop need not end.
\<close>

partial_function (option) run_sync_loop ::
  "ext \<Rightarrow> (nat \<Rightarrow> drive) \<Rightarrow> (simulation \<Rightarrow> simulation) option \<Rightarrow> nat \<Rightarrow> simulation
   \<Rightarrow> (completion \<times> simulation) option" where
  "run_sync_loop E drv upd k sim =
    (if int (period sim) < periods (config sim) then
       (let r = runPeriod E True (drv k) sim
        in if fst r = Done
           then run_sync_loop E drv upd (Suc k)
                  (case upd of Some f \<Rightarrow> f (snd r) | None \<Rightarrow> snd r)
           else Some r)
     else Some (Done, sim))"

text \<open>
  The function \<^verbatim>\<open>loop\<close> of the asynchronous branch. \<^verbatim>\<open>.then(update)\<close> passes the simulation
  through when \<^verbatim>\<open>update\<close> is not a function. \<open>tm\<close> collects the delays passed to
  \<^verbatim>\<open>setTimeout\<close>.
\<close>

partial_function (option) run_async_loop ::
  "ext \<Rightarrow> (nat \<Rightarrow> drive) \<Rightarrow> (simulation \<Rightarrow> simulation) option \<Rightarrow> real option \<Rightarrow> nat
   \<Rightarrow> real option list \<Rightarrow> simulation \<Rightarrow> (completion \<times> real option list \<times> simulation) option"
  where
  "run_async_loop E drv upd dly k tm sim =
    (let r = runPeriod E False (drv k) sim
     in if fst r = Done
        then
          (let s = (case upd of Some f \<Rightarrow> f (snd r) | None \<Rightarrow> snd r)
           in if int (period s) < periods (config s)
              then run_async_loop E drv upd dly (Suc k) (tm @ [dly]) s
              else Some (Done, tm, s))
        else Some (fst r, tm, snd r))"

text \<open>
  \<^verbatim>\<open>run(options)\<close>: how the call or its promise ends, the delays passed to \<^verbatim>\<open>setTimeout\<close>,
  and the simulation; \<open>None\<close> when the periods never end.
\<close>

definition run ::
  "ext \<Rightarrow> (nat \<Rightarrow> drive) \<Rightarrow> run_options option \<Rightarrow> simulation
   \<Rightarrow> (completion \<times> real option list \<times> simulation) option" where
  "run E drv arg sim =
    (let opts = run_params arg
     in if opt_sync opts = Some True
        then map_option (\<lambda>r. (fst r, [], snd r)) (run_sync_loop E drv (opt_update opts) 0 sim)
        else run_async_loop E drv (opt_update opts) (opt_delay opts) 0 [] sim)"

section \<open>Construction\<close>

text \<open>\<^verbatim>\<open>s.indexOf(pat) !== -1\<close>.\<close>

fun containsString :: "string \<Rightarrow> string \<Rightarrow> bool" where
  "containsString pat [] = (pat = [])"
| "containsString pat (c # cs) = (take (length pat) (c # cs) = pat \<or> containsString pat cs)"

definition initLogs :: "config \<Rightarrow> string \<Rightarrow> log option" where
  "initLogs cfg =
    (let withoutOrder = filter (\<lambda>s. \<not> containsString ''order'' s) logNames;
         actualLogs = (if withoutOrderLogs cfg then withoutOrder else logNames)
     in fold (\<lambda>name m. m(name \<mapsto> newLog (logHeaders name))) actualLogs Map.empty)"

text \<open>
  \<^verbatim>\<open>initMarket\<close>: the market is built from the defaults \<^verbatim>\<open>{goods: "X", money: "money"}\<close>
  and \<^verbatim>\<open>config.xMarket\<close>; its listeners are \<open>deliver\<close>.
\<close>

definition initMarket :: "ext \<Rightarrow> config \<Rightarrow> market" where
  "initMarket E cfg = Market_new E (cfg_xMarket cfg)"

text \<open>\<^verbatim>\<open>config.numberOfBuyers || config.buyerValues.length\<close>; \<open>None\<close> is the \<^verbatim>\<open>TypeError\<close>.\<close>

definition numberOrLength :: "nat option \<Rightarrow> real list option \<Rightarrow> nat option" where
  "numberOrLength n xs =
    (case n of
       Some (Suc k) \<Rightarrow> Some (Suc k)
     | _ \<Rightarrow> (case xs of None \<Rightarrow> None | Some ys \<Rightarrow> Some (length ys)))"

text \<open>
  The two assignments \<^verbatim>\<open>config.buyerRate = positiveNumberArray(config.buyerRate) || [1]\<close>
  and \<^verbatim>\<open>config.sellerRate = positiveNumberArray(config.sellerRate) || [1]\<close> of
  \<^verbatim>\<open>initAgents\<close>. \<^verbatim>\<open>sim.config\<close> is the object the caller passed, not a copy of it.
\<close>

definition rateOrDefault :: "ext \<Rightarrow> rate_spec \<Rightarrow> rate_spec" where
  "rateOrDefault E r =
    (case positiveNumberArray E r of Some xs \<Rightarrow> RateArray xs | None \<Rightarrow> RateArray [1])"

definition assignRates :: "ext \<Rightarrow> config \<Rightarrow> config" where
  "assignRates E cfg =
    (let c1 = cfg\<lparr>buyerRate := rateOrDefault E (buyerRate cfg)\<rparr>
     in c1\<lparr>sellerRate := rateOrDefault E (sellerRate c1)\<rparr>)"

text \<open>\<^verbatim>\<open>xs[i % xs.length]\<close>: \<^verbatim>\<open>undefined\<close> for an empty array.\<close>

definition rotate_at :: "'a list \<Rightarrow> nat \<Rightarrow> 'a option" where
  "rotate_at xs i = (if xs = [] then None else Some (xs ! (i mod length xs)))"

definition rateArray :: "rate_spec \<Rightarrow> real list" where
  "rateArray r = (case r of RateArray xs \<Rightarrow> xs | _ \<Rightarrow> [])"

text \<open>
  \<^verbatim>\<open>newAgentFactory(name, options)\<close>: \<open>None\<close> is the \<^verbatim>\<open>TypeError\<close> of calling a constructor
  that is not registered. \<^verbatim>\<open>teachAgent\<close> attaches the behaviours \<^verbatim>\<open>bid\<close> and \<^verbatim>\<open>ask\<close>, which
  the scripts stand for.
\<close>

definition newAgentFactory ::
  "ext \<Rightarrow> string option \<Rightarrow> nat \<Rightarrow> agent_options \<Rightarrow> agent option" where
  "newAgentFactory E name created options =
    (case name of
       None \<Rightarrow> None
     | Some n \<Rightarrow>
        (case AgentFactoryWarehouse E n of
           None \<Rightarrow> None
         | Some ctor \<Rightarrow> Some (ctor created options)))"

definition newBuyerAgent :: "ext \<Rightarrow> simulation \<Rightarrow> agent_options \<Rightarrow> nat \<Rightarrow> agent option" where
  "newBuyerAgent E sim common i =
    newAgentFactory E (rotate_at (buyerAgentType (config sim)) i) i
      (common\<lparr>opt_rate := rotate_at (rateArray (buyerRate (config sim))) i\<rparr>)"

definition newSellerAgent :: "ext \<Rightarrow> simulation \<Rightarrow> agent_options \<Rightarrow> nat \<Rightarrow> agent option" where
  "newSellerAgent E sim common i =
    newAgentFactory E (rotate_at (sellerAgentType (config sim)) i) (numberOfBuyers_sim sim + i)
      (common\<lparr>opt_rate := rotate_at (rateArray (sellerRate (config sim))) i\<rparr>)"

text \<open>
  \<^verbatim>\<open>initAgents\<close>. The buyers' pool and the sellers' pool hold the same agent objects as
  \<^verbatim>\<open>sim.pool\<close>, so what \<^verbatim>\<open>distribute\<close> does to them shows in \<^verbatim>\<open>sim.pool\<close>.
\<close>

definition initAgents :: "ext \<Rightarrow> simulation \<Rightarrow> error option \<times> simulation" where
  "initAgents E sim =
    (case numberOrLength (numberOfBuyers (config sim)) (buyerValues (config sim)) of
       None \<Rightarrow> (Some TypeError, sim)
     | Some nb \<Rightarrow>
        (case numberOrLength (numberOfSellers (config sim)) (sellerCosts (config sim)) of
           None \<Rightarrow> (Some TypeError, sim\<lparr>numberOfBuyers_sim := nb\<rparr>)
         | Some ns \<Rightarrow>
            (let s1 = sim\<lparr>numberOfBuyers_sim := nb, numberOfSellers_sim := ns\<rparr>;
                 s2 = s1\<lparr>config := assignRates E (config s1)\<rparr>
             in if nb = 0 \<or> ns = 0 then (Some CannotDetermineNumbers, s2)
                else
                  (let duration =
                         (if truthy (periodDuration (config s2))
                          then the (periodDuration (config s2)) else 1000);
                       common =
                         \<lparr>opt_integer = cfg_integer (config s2),
                          opt_ignoreBudgetConstraint = ignoreBudgetConstraint (config s2),
                          opt_period_duration = duration,
                          opt_minPrice = cfg_L (config s2),
                          opt_maxPrice = cfg_H (config s2),
                          opt_rate = None\<rparr>;
                       s3 = s2\<lparr>numberOfAgents := nb + ns, periodDuration_sim := duration\<rparr>
                   in case those (map (newBuyerAgent E s3 common) [0..<nb]) of
                        None \<Rightarrow> (Some TypeError, s3)
                      | Some buyers \<Rightarrow>
                         (case those (map (newSellerAgent E s3 common) [0..<ns]) of
                            None \<Rightarrow> (Some TypeError, s3)
                          | Some sellers \<Rightarrow>
                             (None,
                              s3\<lparr>pool :=
                                   \<lparr>agents =
                                      Pool_distribute E ''values'' (buyerValues (config s3))
                                        buyers
                                      @ Pool_distribute E ''costs'' (sellerCosts (config s3))
                                          sellers\<rparr>\<rparr>))))))"

text \<open>
  \<^verbatim>\<open>new Simulation(config)\<close>. The comment on \<^verbatim>\<open>this.config\<close> reads "copy of config as passed
  to constructor"; the statement is \<^verbatim>\<open>this.config = config\<close>, so the field \<open>config\<close> is the
  caller's object and its value after the call is what the caller sees. When the
  constructor throws, the second component is the object under construction, whose
  \<open>config\<close> is still the caller's object.
\<close>

definition Simulation :: "ext \<Rightarrow> config \<Rightarrow> error option \<times> simulation" where
  "Simulation E cfg =
    (let sim0 =
           \<lparr>config = cfg,
            logs = initLogs cfg,
            xMarket = initMarket E cfg,
            pool = \<lparr>agents = []\<rparr>,
            numberOfBuyers_sim = 0,
            numberOfSellers_sim = 0,
            numberOfAgents = 0,
            periodDuration_sim = 0,
            period = 0,
            periodTradePrices = [],
            maximumPossibleGainsFromTrade = None,
            realtime = None,
            realtimeIntervalId = None\<rparr>
     in case initAgents E sim0 of
          (Some e, s) \<Rightarrow> (Some e, s)
        | (None, s) \<Rightarrow> (None, s\<lparr>period := 0, periodTradePrices := []\<rparr>))"

section \<open>Example inputs\<close>

text \<open>
  A market of one buyer of value 80 and one seller of cost 20, with collaborators that do
  the least: agents get the ids 1, 2, ... in the order of their creation, \<^verbatim>\<open>distribute\<close>
  hands the values and costs out one per agent, and the market keeps agent ids in column 2
  of its order rows.
\<close>

definition ex_agent :: "nat \<Rightarrow> agent_options \<Rightarrow> agent" where
  "ex_agent created options =
    \<lparr>agent_id = real created + 1,
     agent_inventory = \<lparr>inv_X = 0, money = 0\<rparr>,
     unitValueFunction = (\<lambda>_. 0),
     unitCostFunction = (\<lambda>_. 0),
     period_startTime = 0\<rparr>"

definition ex_distribute :: "string \<Rightarrow> real list option \<Rightarrow> agent list \<Rightarrow> agent list" where
  "ex_distribute attr vals ags =
    (case vals of
       None \<Rightarrow> ags
     | Some vs \<Rightarrow>
        map (\<lambda>(A, v). if attr = ''values'' then A\<lparr>unitValueFunction := (\<lambda>_. v)\<rparr>
                       else A\<lparr>unitCostFunction := (\<lambda>_. v)\<rparr>) (zip ags vs))"

definition ex_ext :: ext where
  "ex_ext =
    \<lparr>positiveNumberArray =
       (\<lambda>r. case r of
               RateUndefined \<Rightarrow> None
             | RateNumber x \<Rightarrow> (if x > 0 then Some [x] else None)
             | RateArray xs \<Rightarrow> (if xs \<noteq> [] \<and> list_all (\<lambda>x. x > 0) xs then Some xs else None)),
     AgentFactoryWarehouse = (\<lambda>n. if n = ''ZIAgent'' then Some ex_agent else None),
     Market_new = (\<lambda>opts. \<lparr>xm_options = opts, xm_idCol = Some 2, xm_a = []\<rparr>),
     Market_clear = (\<lambda>m. m\<lparr>xm_a := []\<rparr>),
     Pool_distribute = ex_distribute,
     Pool_initPeriod =
       (\<lambda>n p. \<lparr>agents = map (\<lambda>A. A\<lparr>period_startTime := real n * 1000\<rparr>) (agents p)\<rparr>),
     Pool_endPeriod = (\<lambda>p. p),
     Pool_endTime =
       (\<lambda>p. case agents p of [] \<Rightarrow> None | A # _ \<Rightarrow> Some (period_startTime A + 1000)),
     Pool_trade = (\<lambda>ts p. p)\<rparr>"

definition ex_config :: config where
  "ex_config =
    \<lparr>periods = 2,
     periodDuration = Some 1000,
     buyerAgentType = [''ZIAgent''],
     sellerAgentType = [''ZIAgent''],
     buyerRate = RateUndefined,
     sellerRate = RateUndefined,
     buyerValues = Some [80],
     sellerCosts = Some [20],
     numberOfBuyers = None,
     numberOfSellers = None,
     cfg_xMarket = [],
     cfg_integer = False,
     ignoreBudgetConstraint = False,
     keepPreviousOrders = False,
     cfg_L = 1,
     cfg_H = 200,
     silent = True,
     withoutOrderLogs = False,
     cfg_realtime = False,
     logDir = None,
     logToFileSystem = False\<rparr>"

definition ex_sim :: simulation where
  "ex_sim = snd (Simulation ex_ext ex_config)"

definition ex_orders :: "real list list" where
  "ex_orders = [[0, 3400, 1, 1, 1, 50, 0], [1, 3500, 2, 1, 1, 0, 50]]"

definition ex_trade :: tradespec where
  "ex_trade = \<lparr>ts_t = 3500, totalQ = 1, buyA = [0], sellA = [1], prices = [50]\<rparr>"

definition ex_sim3 :: simulation where
  "ex_sim3 = ex_sim\<lparr>period := 3, xMarket := (xMarket ex_sim)\<lparr>xm_a := ex_orders\<rparr>\<rparr>"

definition ex_buyer :: agent where
  "ex_buyer =
    \<lparr>agent_id = 1,
     agent_inventory = \<lparr>inv_X = 0, money = 0\<rparr>,
     unitValueFunction = (\<lambda>_. 80),
     unitCostFunction = (\<lambda>_. 0),
     period_startTime = 0\<rparr>"

definition ex_seller :: agent where
  "ex_seller =
    \<lparr>agent_id = 2,
     agent_inventory = \<lparr>inv_X = 0, money = 0\<rparr>,
     unitValueFunction = (\<lambda>_. 0),
     unitCostFunction = (\<lambda>_. 20),
     period_startTime = 0\<rparr>"

definition ex_trade2 :: tradespec where
  "ex_trade2 = \<lparr>ts_t = 3500, totalQ = 2, buyA = [0], sellA = [1], prices = [50]\<rparr>"

definition ex_order_unknown :: order where
  "ex_order_unknown = \<lparr>ord_t = 3400, ord_id = 9, buyPrice = Some 50, sellPrice = None\<rparr>"

definition ex_sim_end :: simulation where
  "ex_sim_end =
    ex_sim\<lparr>period := 1,
           pool := \<lparr>agents = [ex_buyer\<lparr>agent_inventory := \<lparr>inv_X = 1, money = 30\<rparr>\<rparr>,
                              ex_seller\<lparr>agent_inventory := \<lparr>inv_X = -1, money = 30\<rparr>\<rparr>]\<rparr>,
           periodTradePrices := [50, 60, 40]\<rparr>"

definition ex_sim_quiet :: simulation where
  "ex_sim_quiet = ex_sim\<lparr>period := 1\<rparr>"

definition ex_drive_idle :: drive where
  "ex_drive_idle =
    \<lparr>steps = [], dateNow = 5, timerId = 7, timerForUndefined = None, ticks = []\<rparr>"

definition ex_sim_realtime :: simulation where
  "ex_sim_realtime = snd (Simulation ex_ext (ex_config\<lparr>cfg_realtime := True\<rparr>))"

definition ex_sim_pending :: simulation where
  "ex_sim_pending = snd (runPeriod ex_ext False ex_drive_idle ex_sim_realtime)"

definition ex_sim_zero :: simulation where
  "ex_sim_zero = snd (Simulation ex_ext (ex_config\<lparr>buyerValues := Some [10]\<rparr>))"

definition ex_drive_trade :: drive where
  "ex_drive_trade =
    \<lparr>steps = [Substrate (\<lambda>p. p) (\<lambda>m. m\<lparr>xm_a := ex_orders\<rparr>), Trade ex_trade],
     dateNow = 5, timerId = 7, timerForUndefined = None, ticks = []\<rparr>"

section \<open>Lemmas about the model\<close>

lemma writeLog_fields:
  "period (writeLog n x s) = period s"
  "config (writeLog n x s) = config s"
  "pool (writeLog n x s) = pool s"
  "xMarket (writeLog n x s) = xMarket s"
  "periodTradePrices (writeLog n x s) = periodTradePrices s"
  "maximumPossibleGainsFromTrade (writeLog n x s) = maximumPossibleGainsFromTrade s"
  "realtime (writeLog n x s) = realtime s"
  "realtimeIntervalId (writeLog n x s) = realtimeIntervalId s"
  "periodDuration_sim (writeLog n x s) = periodDuration_sim s"
  by (simp_all add: writeLog_def split: option.split)

lemma writeLog_logs:
  "logs (writeLog n x s) m = (if m = n then map_option (log_write x) (logs s n) else logs s m)"
  by (simp add: writeLog_def split: option.split)

lemma writeLog_logRows:
  "logRows (writeLog n x s) m =
    (if m = n \<and> logs s n \<noteq> None
     then logRows s n @ (case x of None \<Rightarrow> [] | Some r \<Rightarrow> [r])
     else logRows s m)"
  by (auto simp add: logRows_def writeLog_logs log_write_def split: option.split)

lemma logRows_update_irrelevant:
  "logRows (s\<lparr>periodTradePrices := x\<rparr>) n = logRows s n"
  "logRows (s\<lparr>pool := p\<rparr>) n = logRows s n"
  "logRows (s\<lparr>xMarket := m\<rparr>) n = logRows s n"
  "logRows (s\<lparr>period := k\<rparr>) n = logRows s n"
  "logRows (s\<lparr>maximumPossibleGainsFromTrade := g\<rparr>) n = logRows s n"
  by (simp_all add: logRows_def)

lemma logTrade_error_unchanged:
  "fst (logTrade ts sim) \<noteq> None \<Longrightarrow> snd (logTrade ts sim) = sim"
  by (auto simp add: logTrade_def split: option.splits sum.splits if_splits)

lemma fold_max_Max: "fold max ps (p::real) = Max (set (p # ps))"
  by (rule Max.set_eq_fold [symmetric])

lemma fold_min_Min: "fold min ps (p::real) = Min (set (p # ps))"
  by (rule Min.set_eq_fold [symmetric])

lemma fold_add_sum_list: "fold (\<lambda>m acc. acc + m) xs (a::real) = a + sum_list xs"
  by (induction xs arbitrary: a) simp_all

lemma getMax_fields:
  "period (snd (getMaximumPossibleGainsFromTrade s)) = period s"
  "config (snd (getMaximumPossibleGainsFromTrade s)) = config s"
  "pool (snd (getMaximumPossibleGainsFromTrade s)) = pool s"
  "xMarket (snd (getMaximumPossibleGainsFromTrade s)) = xMarket s"
  "logs (snd (getMaximumPossibleGainsFromTrade s)) = logs s"
  "periodTradePrices (snd (getMaximumPossibleGainsFromTrade s)) = periodTradePrices s"
  "realtime (snd (getMaximumPossibleGainsFromTrade s)) = realtime s"
  "realtimeIntervalId (snd (getMaximumPossibleGainsFromTrade s)) = realtimeIntervalId s"
  by (simp_all add: getMaximumPossibleGainsFromTrade_def Let_def)

lemma getMax_depends:
  "maximumPossibleGainsFromTrade s = maximumPossibleGainsFromTrade s' \<Longrightarrow> config s = config s'
   \<Longrightarrow> fst (getMaximumPossibleGainsFromTrade s) = fst (getMaximumPossibleGainsFromTrade s')"
  by (simp add: getMaximumPossibleGainsFromTrade_def Let_def)

lemma logRows_getMax:
  "logRows (snd (getMaximumPossibleGainsFromTrade s)) n = logRows s n"
  by (simp add: logRows_def getMax_fields)

lemma ohlc_writeLog: "ohlc (writeLog n x s) = ohlc s"
  by (simp add: ohlc_def writeLog_fields split: list.split)

lemma logPeriod_ohlc_rows:
  assumes "logs sim ''ohlc'' \<noteq> None"
  shows "logRows (logPeriod sim) ''ohlc'' =
         logRows sim ''ohlc'' @ (case ohlc sim of None \<Rightarrow> [] | Some r \<Rightarrow> [r])"
  using assms
  by (simp add: logPeriod_def Let_def writeLog_logRows writeLog_fields writeLog_logs
      logRows_update_irrelevant logRows_getMax getMax_fields case_prod_beta ohlc_writeLog)

lemma logPeriod_volume_rows:
  assumes "logs sim ''volume'' \<noteq> None"
  shows "logRows (logPeriod sim) ''volume'' =
         logRows sim ''volume''
         @ [[Num (real (period sim)), Num (real (length (periodTradePrices sim)))]]"
  using assms
  by (simp add: logPeriod_def Let_def writeLog_logRows writeLog_fields writeLog_logs
      logRows_update_irrelevant logRows_getMax getMax_fields case_prod_beta)

lemma logTrade_frame:
  "period (snd (logTrade ts s)) = period s"
  "config (snd (logTrade ts s)) = config s"
  "n \<noteq> ''trade'' \<Longrightarrow> logs (snd (logTrade ts s)) n = logs s n"
  by (simp_all add: logTrade_def writeLog_fields writeLog_logs
      split: option.split sum.split)

lemma order_log_not_volume:
  "''volume'' \<noteq> prefix @ ''buyorder''" "''volume'' \<noteq> prefix @ ''sellorder''"
proof -
  have "length ''volume'' \<noteq> length (prefix @ ''buyorder'')"
    "length ''volume'' \<noteq> length (prefix @ ''sellorder'')"
    by simp_all
  then show "''volume'' \<noteq> prefix @ ''buyorder''" "''volume'' \<noteq> prefix @ ''sellorder''"
    by metis+
qed

lemma logOrder_frame:
  "period (logOrder prefix ord s) = period s"
  "config (logOrder prefix ord s) = config s"
  "logs (logOrder prefix ord s) ''volume'' = logs s ''volume''"
  by (simp_all add: logOrder_def Let_def writeLog_fields writeLog_logs order_log_not_volume
      split: option.split)

lemma deliver_frame:
  "period (snd (deliver E st s)) = period s"
  "config (snd (deliver E st s)) = config s"
  "logs (snd (deliver E st s)) ''volume'' = logs s ''volume''"
  by (simp_all add: deliver_def logOrder_frame logTrade_frame case_prod_beta
      split: step.split option.split)

lemma syncRun_frame:
  "period (snd (syncRun E sts s)) = period s
   \<and> config (snd (syncRun E sts s)) = config s
   \<and> logs (snd (syncRun E sts s)) ''volume'' = logs s ''volume''"
proof (induction sts arbitrary: s)
  case Nil
  show ?case by simp
next
  case (Cons st sts)
  show ?case
  proof (cases "deliver E st s")
    case (Pair r s1)
    have f: "period s1 = period s" "config s1 = config s"
      "logs s1 ''volume'' = logs s ''volume''"
      using deliver_frame [of E st s] Pair by simp_all
    show ?thesis
    proof (cases r)
      case None
      then show ?thesis using Pair Cons.IH [of s1] f by simp
    next
      case (Some e)
      then show ?thesis using Pair f by simp
    qed
  qed
qed

lemma logPeriod_frame:
  "period (logPeriod s) = period s"
  "config (logPeriod s) = config s"
  by (simp_all add: logPeriod_def Let_def writeLog_fields getMax_fields case_prod_beta)

lemma logPeriod_volume_exists:
  "logs s ''volume'' \<noteq> None \<Longrightarrow> logs (logPeriod s) ''volume'' \<noteq> None"
  by (simp add: logPeriod_def Let_def writeLog_fields writeLog_logs getMax_fields
      case_prod_beta)

lemma atEndOfPeriod_frame:
  "period (atEndOfPeriod E s) = period s"
  "config (atEndOfPeriod E s) = config s"
  by (simp_all add: atEndOfPeriod_def logPeriod_frame)

lemma syncRun_period: "period (snd (syncRun E sts s)) = period s"
  and syncRun_config: "config (snd (syncRun E sts s)) = config s"
  and syncRun_volume: "logs (snd (syncRun E sts s)) ''volume'' = logs s ''volume''"
  using syncRun_frame [of E sts s] by simp_all

lemma onRealtimeWake_frame:
  "period (snd (onRealtimeWake E endTime tks s)) = period s
   \<and> config (snd (onRealtimeWake E endTime tks s)) = config s"
proof (induction tks arbitrary: s)
  case Nil
  show ?case by simp
next
  case (Cons tk tks)
  obtain wall sts where tk: "tk = (wall, sts)" by (cases tk)
  show ?case
    using Cons.IH
    by (simp add: tk case_prod_beta syncRun_period syncRun_config atEndOfPeriod_frame
        split: option.split)
qed

lemma onRealtimeWake_period: "period (snd (onRealtimeWake E endTime tks s)) = period s"
  and onRealtimeWake_config: "config (snd (onRealtimeWake E endTime tks s)) = config s"
  using onRealtimeWake_frame [of E endTime tks s] by simp_all

lemma runPeriod_frame:
  "period (snd (runPeriod E sync drv s)) = Suc (period s)
   \<and> config (snd (runPeriod E sync drv s)) = config s"
  by (simp add: runPeriod_def Let_def case_prod_beta syncRun_period syncRun_config
      atEndOfPeriod_frame onRealtimeWake_period onRealtimeWake_config
      split: option.split list.split)

lemma runPeriod_sync_volume:
  assumes "fst (runPeriod E True drv s) = Done" and "logs s ''volume'' \<noteq> None"
  shows "logs (snd (runPeriod E True drv s)) ''volume'' \<noteq> None
         \<and> map hd (logRows (snd (runPeriod E True drv s)) ''volume'')
             = map hd (logRows s ''volume'') @ [Num (real (Suc (period s)))]"
proof -
  define s3 where "s3 = s\<lparr>period := period s + 1,
      pool := Pool_initPeriod E (period s + 1) (pool s),
      xMarket := Market_clear E (xMarket s)\<rparr>"
  obtain r s' where sr: "syncRun E (steps drv) s3 = (r, s')"
    by (cases "syncRun E (steps drv) s3")
  have rp: "runPeriod E True drv s =
      (case r of Some e \<Rightarrow> (Failed e, s') | None \<Rightarrow> (Done, atEndOfPeriod E s'))"
    using sr by (simp add: runPeriod_def Let_def s3_def split: option.split)
  then have r: "r = None"
    using assms(1) by (cases r) simp_all
  have f: "period s' = Suc (period s)" "logs s' ''volume'' = logs s ''volume''"
    using syncRun_frame [of E "steps drv" s3] sr by (simp_all add: s3_def)
  define s'' where "s'' = s'\<lparr>pool := Pool_endPeriod E (pool s')\<rparr>"
  have f': "period s'' = Suc (period s)" "logs s'' ''volume'' = logs s ''volume''"
    using f by (simp_all add: s''_def)
  have "logRows s'' ''volume'' = logRows s ''volume''"
    using f' by (simp add: logRows_def)
  then show ?thesis
    using assms(2) f' logPeriod_volume_rows [of s''] logPeriod_volume_exists [of s'']
    by (simp add: rp r atEndOfPeriod_def s''_def [symmetric])
qed

lemma run_sync_loop_counts:
  assumes "nat (periods (config s) - int (period s)) = m"
    and "int (period s) \<le> periods (config s)"
    and "logs s ''volume'' \<noteq> None"
  shows "\<exists>c s'. run_sync_loop E drv None k s = Some (c, s')
           \<and> (c = Done \<longrightarrow>
                int (period s') = periods (config s)
                \<and> map hd (logRows s' ''volume'')
                    = map hd (logRows s ''volume'')
                      @ map (\<lambda>i. Num (real i)) [Suc (period s)..<Suc (nat (periods (config s)))])"
  using assms
proof (induction m arbitrary: s k)
  case 0
  then have "\<not> int (period s) < periods (config s)" by simp
  then have "run_sync_loop E drv None k s = Some (Done, s)"
    by (subst run_sync_loop.simps) simp
  moreover have "int (period s) = periods (config s)" using 0 by simp
  ultimately show ?case by simp
next
  case (Suc m)
  then have lt: "int (period s) < periods (config s)" by simp
  define r where "r = runPeriod E True (drv k) s"
  have unfold: "run_sync_loop E drv None k s =
      (if fst r = Done then run_sync_loop E drv None (Suc k) (snd r) else Some r)"
    using lt by (subst run_sync_loop.simps) (simp add: r_def Let_def)
  show ?case
  proof (cases "fst r = Done")
    case False
    then show ?thesis
      using unfold by (cases r) auto
  next
    case True
    have fr: "period (snd r) = Suc (period s)" "config (snd r) = config s"
      using runPeriod_frame [of E True "drv k" s] by (simp_all add: r_def)
    have vol: "logs (snd r) ''volume'' \<noteq> None"
      "map hd (logRows (snd r) ''volume'')
         = map hd (logRows s ''volume'') @ [Num (real (Suc (period s)))]"
      using runPeriod_sync_volume [of E "drv k" s] True Suc.prems(3) by (simp_all add: r_def)
    have m: "nat (periods (config (snd r)) - int (period (snd r))) = m"
      "int (period (snd r)) \<le> periods (config (snd r))"
      using Suc.prems(1) lt fr by simp_all
    obtain c s' where res: "run_sync_loop E drv None (Suc k) (snd r) = Some (c, s')"
      and post: "c = Done \<longrightarrow>
          int (period s') = periods (config (snd r))
          \<and> map hd (logRows s' ''volume'')
              = map hd (logRows (snd r) ''volume'')
                @ map (\<lambda>i. Num (real i))
                    [Suc (period (snd r))..<Suc (nat (periods (config (snd r))))]"
      using Suc.IH [OF m vol(1), of "Suc k"] by blast
    have upt: "[Suc (period s)..<Suc (nat (periods (config s)))]
        = Suc (period s) # [Suc (Suc (period s))..<Suc (nat (periods (config s)))]"
    proof -
      have "period s < nat (periods (config s))" using lt by simp
      then show ?thesis by (simp add: upt_conv_Cons del: upt_Suc)
    qed
    show ?thesis
      using unfold True res post by (simp add: fr vol(2) upt del: upt_Suc)
  qed
qed

lemma initLogs_always:
  "initLogs cfg ''trade'' = Some (newLog (logHeaders ''trade''))"
  "initLogs cfg ''profit'' = Some (newLog (logHeaders ''profit''))"
  "initLogs cfg ''ohlc'' = Some (newLog (logHeaders ''ohlc''))"
  "initLogs cfg ''volume'' = Some (newLog (logHeaders ''volume''))"
  "initLogs cfg ''effalloc'' = Some (newLog (logHeaders ''effalloc''))"
  by (simp_all add: initLogs_def logNames_def Let_def)

lemma assignRates_reset:
  "(assignRates E cfg)\<lparr>buyerRate := buyerRate cfg, sellerRate := sellerRate cfg\<rparr> = cfg"
  by (simp add: assignRates_def Let_def)

lemma initAgents_frame:
  "period (snd (initAgents E s)) = period s"
  "logs (snd (initAgents E s)) = logs s"
  "periodTradePrices (snd (initAgents E s)) = periodTradePrices s"
  "realtimeIntervalId (snd (initAgents E s)) = realtimeIntervalId s"
  "maximumPossibleGainsFromTrade (snd (initAgents E s)) = maximumPossibleGainsFromTrade s"
  by (simp_all add: initAgents_def Let_def split: option.split)

lemma initAgents_config:
  "config (snd (initAgents E s)) = config s
   \<or> config (snd (initAgents E s)) = assignRates E (config s)"
  by (simp add: initAgents_def Let_def split: option.split)

lemma initAgents_config_ok:
  "fst (initAgents E s) = None \<Longrightarrow> config (snd (initAgents E s)) = assignRates E (config s)"
  by (simp add: initAgents_def Let_def split: option.splits if_splits)

lemma Simulation_fields:
  "period (snd (Simulation E cfg)) = 0"
  "logs (snd (Simulation E cfg)) = initLogs cfg"
  "realtimeIntervalId (snd (Simulation E cfg)) = None"
  "maximumPossibleGainsFromTrade (snd (Simulation E cfg)) = None"
  by (simp_all add: Simulation_def Let_def case_prod_beta initAgents_frame split: option.split)

lemma Simulation_config:
  "config (snd (Simulation E cfg)) = cfg \<or> config (snd (Simulation E cfg)) = assignRates E cfg"
  using initAgents_config [of E "\<lparr>config = cfg,
            logs = initLogs cfg,
            xMarket = initMarket E cfg,
            pool = \<lparr>agents = []\<rparr>,
            numberOfBuyers_sim = 0,
            numberOfSellers_sim = 0,
            numberOfAgents = 0,
            periodDuration_sim = 0,
            period = 0,
            periodTradePrices = [],
            maximumPossibleGainsFromTrade = None,
            realtime = None,
            realtimeIntervalId = None\<rparr>"]
  by (auto simp add: Simulation_def Let_def case_prod_beta split: option.split)

lemma Simulation_config_ok:
  "fst (Simulation E cfg) = None \<Longrightarrow> config (snd (Simulation E cfg)) = assignRates E cfg"
  using initAgents_config_ok [of E "\<lparr>config = cfg,
            logs = initLogs cfg,
            xMarket = initMarket E cfg,
            pool = \<lparr>agents = []\<rparr>,
            numberOfBuyers_sim = 0,
            numberOfSellers_sim = 0,
            numberOfAgents = 0,
            periodDuration_sim = 0,
            period = 0,
            periodTradePrices = [],
            maximumPossibleGainsFromTrade = None,
            realtime = None,
            realtimeIntervalId = None\<rparr>"]
  by (auto simp add: Simulation_def Let_def case_prod_beta split: option.splits)

lemma assignRates_periods: "periods (assignRates E cfg) = periods cfg"
  by (simp add: assignRates_def Let_def)


lemma ex_Simulation_ok: "fst (Simulation ex_ext ex_config) = None"
  by (simp add: Simulation_def initAgents_def numberOrLength_def ex_config_def Let_def
      newBuyerAgent_def newSellerAgent_def newAgentFactory_def rotate_at_def ex_ext_def
      assignRates_def rateOrDefault_def rateArray_def truthy_def)

lemma ex_sim_pool: "pool ex_sim = \<lparr>agents = [ex_buyer, ex_seller]\<rparr>"
  by (simp add: ex_sim_def Simulation_def initAgents_def numberOrLength_def ex_config_def
      Let_def newBuyerAgent_def newSellerAgent_def newAgentFactory_def rotate_at_def
      ex_ext_def assignRates_def rateOrDefault_def rateArray_def truthy_def
      ex_distribute_def ex_agent_def ex_buyer_def ex_seller_def)

lemma ex_sim_market: "xMarket ex_sim = \<lparr>xm_options = [], xm_idCol = Some 2, xm_a = []\<rparr>"
  by (simp add: ex_sim_def Simulation_def initAgents_def numberOrLength_def ex_config_def
      Let_def newBuyerAgent_def newSellerAgent_def newAgentFactory_def rotate_at_def
      ex_ext_def assignRates_def rateOrDefault_def rateArray_def truthy_def initMarket_def)

lemma ex_sim_duration: "periodDuration_sim ex_sim = 1000"
  by (simp add: ex_sim_def Simulation_def initAgents_def numberOrLength_def ex_config_def
      Let_def newBuyerAgent_def newSellerAgent_def newAgentFactory_def rotate_at_def
      ex_ext_def assignRates_def rateOrDefault_def rateArray_def truthy_def)

lemma ex_sim_config:
  "config ex_sim = ex_config\<lparr>buyerRate := RateArray [1], sellerRate := RateArray [1]\<rparr>"
  using Simulation_config_ok [OF ex_Simulation_ok]
  by (simp add: ex_sim_def assignRates_def rateOrDefault_def ex_ext_def ex_config_def Let_def)

lemma ex_sim_logs: "logs ex_sim = initLogs ex_config"
  by (simp add: ex_sim_def Simulation_fields)

lemma ex_buyer_found: "agentsById (pool ex_sim3) 1 = Some ex_buyer"
  and ex_seller_found: "agentsById (pool ex_sim3) 2 = Some ex_seller"
  by (simp_all add: ex_sim3_def ex_sim_pool agentsById_def ex_buyer_def ex_seller_def)

lemma ex_logTrade_ok: "fst (logTrade ex_trade ex_sim3) = None"
  using ex_buyer_found ex_seller_found
  by (simp add: logTrade_def ex_sim3_def ex_sim_market ex_trade_def lookupId_def elemAt_def
      ex_orders_def truthy_def)

lemma ex_logs_exist:
  "logs ex_sim_end n = initLogs ex_config n" "logs ex_sim_quiet n = initLogs ex_config n"
  by (simp_all add: ex_sim_end_def ex_sim_quiet_def ex_sim_logs)

lemma ex_realtime_ok: "fst (Simulation ex_ext (ex_config\<lparr>cfg_realtime := True\<rparr>)) = None"
  by (simp add: Simulation_def initAgents_def numberOrLength_def ex_config_def Let_def
      newBuyerAgent_def newSellerAgent_def newAgentFactory_def rotate_at_def ex_ext_def
      assignRates_def rateOrDefault_def rateArray_def truthy_def)

lemma ex_sim_realtime_fields:
  "cfg_realtime (config ex_sim_realtime)"
  "realtimeIntervalId ex_sim_realtime = None"
  "period ex_sim_realtime = 0"
  "agents (pool ex_sim_realtime) = [ex_buyer, ex_seller]"
  using Simulation_config_ok [OF ex_realtime_ok]
     apply (simp add: ex_sim_realtime_def assignRates_def Let_def ex_config_def)
    apply (simp add: ex_sim_realtime_def Simulation_fields)
   apply (simp add: ex_sim_realtime_def Simulation_fields)
  apply (simp add: ex_sim_realtime_def Simulation_def initAgents_def numberOrLength_def
      ex_config_def Let_def newBuyerAgent_def newSellerAgent_def newAgentFactory_def
      rotate_at_def ex_ext_def assignRates_def rateOrDefault_def rateArray_def truthy_def
      ex_distribute_def ex_agent_def ex_buyer_def ex_seller_def)
  done

lemma ex_sim_pending_fields:
  "cfg_realtime (config ex_sim_pending)"
  "realtimeIntervalId ex_sim_pending = Some 7"
  "period ex_sim_pending = 1"
  "fst (runPeriod ex_ext False ex_drive_idle ex_sim_realtime) = Pending"
  using ex_sim_realtime_fields
  by (simp_all add: ex_sim_pending_def runPeriod_def Let_def ex_drive_idle_def ex_ext_def
      truthy_def ex_buyer_def)

lemma ex_zero_ok: "fst (Simulation ex_ext (ex_config\<lparr>buyerValues := Some [10]\<rparr>)) = None"
  by (simp add: Simulation_def initAgents_def numberOrLength_def ex_config_def Let_def
      newBuyerAgent_def newSellerAgent_def newAgentFactory_def rotate_at_def ex_ext_def
      assignRates_def rateOrDefault_def rateArray_def truthy_def)

lemma ex_sim_zero_fields:
  "buyerValues (config ex_sim_zero) = Some [10]"
  "sellerCosts (config ex_sim_zero) = Some [20]"
  "maximumPossibleGainsFromTrade ex_sim_zero = None"
  using Simulation_config_ok [OF ex_zero_ok]
  by (simp_all add: ex_sim_zero_def assignRates_def Let_def ex_config_def Simulation_fields)

lemma sort_mset_cong: "mset xs = mset ys \<Longrightarrow> sort xs = sort (ys :: real list)"
  by (rule properties_for_sort) simp_all

lemma getMaximumPossibleGainsFromTrade_permutation:
  assumes "maximumPossibleGainsFromTrade s = None"
    and "mset bv' = mset bv" and "mset sc' = mset sc"
  shows "fst (getMaximumPossibleGainsFromTrade
                (s\<lparr>config := (config s)\<lparr>buyerValues := Some bv', sellerCosts := Some sc'\<rparr>\<rparr>))
         = fst (getMaximumPossibleGainsFromTrade
                (s\<lparr>config := (config s)\<lparr>buyerValues := Some bv, sellerCosts := Some sc\<rparr>\<rparr>))"
  using assms sort_mset_cong [of bv' bv] sort_mset_cong [of sc' sc]
  by (simp add: getMaximumPossibleGainsFromTrade_def truthy_def Let_def)

lemma getMaximumPossibleGainsFromTrade_cached:
  assumes "fst (getMaximumPossibleGainsFromTrade s) \<noteq> 0"
  shows "fst (getMaximumPossibleGainsFromTrade
                ((snd (getMaximumPossibleGainsFromTrade s))\<lparr>config := c\<rparr>))
         = fst (getMaximumPossibleGainsFromTrade s)"
  using assms
  by (auto simp add: getMaximumPossibleGainsFromTrade_def truthy_def Let_def
      split: option.splits)


lemma logPeriod_pool_market:
  "pool (logPeriod s) = pool s" "xMarket (logPeriod s) = xMarket s"
  by (simp_all add: logPeriod_def Let_def writeLog_fields getMax_fields case_prod_beta)

lemma run_sync_loop_Done:
  assumes step: "\<And>s k. P s \<Longrightarrow>
      fst (runPeriod E True (drv k) s) = Done \<and> P (snd (runPeriod E True (drv k) s))"
    and "P s" and "nat (periods (config s) - int (period s)) = m"
  shows "\<exists>s'. run_sync_loop E drv None k s = Some (Done, s')"
  using assms(2,3)
proof (induction m arbitrary: s k)
  case 0
  then have "\<not> int (period s) < periods (config s)" by simp
  then show ?case
    by (subst run_sync_loop.simps) simp
next
  case (Suc m)
  then have lt: "int (period s) < periods (config s)" by simp
  define r where "r = runPeriod E True (drv k) s"
  have d: "fst r = Done" "P (snd r)"
    using step [OF Suc.prems(1), of k] by (simp_all add: r_def)
  have fr: "period (snd r) = Suc (period s)" "config (snd r) = config s"
    using runPeriod_frame [of E True "drv k" s] by (simp_all add: r_def)
  have "run_sync_loop E drv None k s = run_sync_loop E drv None (Suc k) (snd r)"
    using lt d(1) by (subst run_sync_loop.simps) (simp add: r_def [symmetric] Let_def)
  moreover have "nat (periods (config (snd r)) - int (period (snd r))) = m"
    using Suc.prems(2) fr by simp
  ultimately show ?case
    using Suc.IH [OF d(2), of "Suc k"] by simp
qed

lemma ex_period_ok:
  assumes "xm_idCol (xMarket s) = Some 2 \<and> map agent_id (agents (pool s)) = [1, 2]"
  shows "fst (runPeriod ex_ext True ex_drive_trade s) = Done
       \<and> (xm_idCol (xMarket (snd (runPeriod ex_ext True ex_drive_trade s))) = Some 2
          \<and> map agent_id (agents (pool (snd (runPeriod ex_ext True ex_drive_trade s))))
              = [1, 2])"
proof -
  obtain A B where ab: "agents (pool s) = [A, B]" "agent_id A = 1" "agent_id B = 2"
    using assms by (cases "agents (pool s)") auto
  define s3 where "s3 = s\<lparr>period := period s + 1,
      pool := Pool_initPeriod ex_ext (period s + 1) (pool s),
      xMarket := Market_clear ex_ext (xMarket s)\<rparr>"
  define s4 where "s4 = s3\<lparr>xMarket := (xMarket s3)\<lparr>xm_a := ex_orders\<rparr>\<rparr>"
  have s4: "xm_idCol (xMarket s4) = Some 2" "xm_a (xMarket s4) = ex_orders"
    "map agent_id (agents (pool s4)) = [1, 2]"
    using assms ab by (simp_all add: s4_def s3_def ex_ext_def)
  have found: "agentsById (pool s4) 1 \<noteq> None" "agentsById (pool s4) 2 \<noteq> None"
    using ab by (simp_all add: agentsById_def s4_def s3_def ex_ext_def)
  have lt: "fst (logTrade ex_trade s4) = None"
    "pool (snd (logTrade ex_trade s4)) = pool s4"
    "xMarket (snd (logTrade ex_trade s4)) = xMarket s4"
    using found s4(1,2)
    by (auto simp add: logTrade_def lookupId_def elemAt_def ex_orders_def ex_trade_def
        truthy_def writeLog_fields split: option.split)
  have sr: "syncRun ex_ext (steps ex_drive_trade) s3
              = (None, (snd (logTrade ex_trade s4))\<lparr>pool := pool (snd (logTrade ex_trade s4))\<rparr>)"
    using lt(1)
    by (simp add: ex_drive_trade_def deliver_def s4_def [symmetric] case_prod_beta ex_ext_def
        split: option.split)
  have "runPeriod ex_ext True ex_drive_trade s
          = (Done, atEndOfPeriod ex_ext
               ((snd (logTrade ex_trade s4))\<lparr>pool := pool (snd (logTrade ex_trade s4))\<rparr>))"
    using sr by (simp add: runPeriod_def Let_def s3_def)
  then show ?thesis
    using lt(2,3) s4
    by (simp add: atEndOfPeriod_def logPeriod_pool_market ex_ext_def)
qed




section \<open>The properties\<close>

text \<open>
  C1, as amended. In real-time mode a call of \<^verbatim>\<open>runPeriod\<close> made while
  \<^verbatim>\<open>realtimeIntervalId\<close> is set is rejected with "sim has unexpected realtimeIntervalId" and
  leaves \<^verbatim>\<open>periodTradePrices\<close> as it was; the period counter has already been incremented
  by one when the guard is reached, and \<^verbatim>\<open>realtimeIntervalId\<close> stays set.
\<close>

theorem runPeriod_realtime_guard:
  assumes "cfg_realtime (config sim)" and "realtimeIntervalId sim = Some i"
  shows "fst (runPeriod E False drv sim) = Failed UnexpectedRealtimeIntervalId
       \<and> periodTradePrices (snd (runPeriod E False drv sim)) = periodTradePrices sim
       \<and> period (snd (runPeriod E False drv sim)) = period sim + 1
       \<and> realtimeIntervalId (snd (runPeriod E False drv sim)) = Some i"
  using assms by (simp add: runPeriod_def Let_def)

text \<open>C1, as amended, at a second real-time call made while the first period is pending.\<close>

theorem runPeriod_realtime_guard_witness:
  "fst (runPeriod ex_ext False ex_drive_idle ex_sim_pending)
     = Failed UnexpectedRealtimeIntervalId
   \<and> periodTradePrices (snd (runPeriod ex_ext False ex_drive_idle ex_sim_pending))
       = periodTradePrices ex_sim_pending
   \<and> period (snd (runPeriod ex_ext False ex_drive_idle ex_sim_pending)) = 2
   \<and> realtimeIntervalId (snd (runPeriod ex_ext False ex_drive_idle ex_sim_pending)) = Some 7"
  using runPeriod_realtime_guard [OF ex_sim_pending_fields(1) ex_sim_pending_fields(2),
      of ex_ext ex_drive_idle]
  by (simp add: ex_sim_pending_fields)

text \<open>
  C1 as stated does not hold: a simulation whose first real-time period is still pending
  has period 1, and the rejected second call leaves it at period 2.
\<close>

theorem runPeriod_realtime_guard_counterexample:
  "cfg_realtime (config ex_sim_pending)
   \<and> realtimeIntervalId ex_sim_pending = Some 7
   \<and> fst (runPeriod ex_ext False ex_drive_idle ex_sim_pending)
       = Failed UnexpectedRealtimeIntervalId
   \<and> period ex_sim_pending = 1
   \<and> period (snd (runPeriod ex_ext False ex_drive_idle ex_sim_pending)) = 2
   \<and> period (snd (runPeriod ex_ext False ex_drive_idle ex_sim_pending))
       \<noteq> period ex_sim_pending"
  using ex_sim_pending_fields
  by (simp add: runPeriod_def Let_def)

text \<open>
  C2. A trade event whose \<^verbatim>\<open>totalQ\<close> is not 1, or whose \<^verbatim>\<open>buyA\<close> or \<^verbatim>\<open>sellA\<close> does not have
  exactly one element, or whose first price is missing or zero, makes \<^verbatim>\<open>logTrade\<close> throw,
  and the simulation, with its \<^verbatim>\<open>periodTradePrices\<close>, is as it was before the call.
\<close>

theorem logTrade_rejects_malformed:
  assumes "totalQ ts \<noteq> 1 \<or> length (buyA ts) \<noteq> 1 \<or> length (sellA ts) \<noteq> 1
           \<or> \<not> truthy (elemAt (prices ts) 0)"
  shows "fst (logTrade ts sim) \<noteq> None \<and> snd (logTrade ts sim) = sim
         \<and> periodTradePrices (snd (logTrade ts sim)) = periodTradePrices sim"
proof -
  have "fst (logTrade ts sim) \<noteq> None"
    using assms by (auto simp add: logTrade_def split: option.splits sum.splits)
  then show ?thesis
    by (simp add: logTrade_error_unchanged)
qed

text \<open>C2 at a trade event reporting \<^verbatim>\<open>totalQ = 2\<close>.\<close>

theorem logTrade_rejects_malformed_witness:
  "totalQ ex_trade2 = 2
   \<and> fst (logTrade ex_trade2 ex_sim3) \<noteq> None \<and> snd (logTrade ex_trade2 ex_sim3) = ex_sim3
   \<and> periodTradePrices (snd (logTrade ex_trade2 ex_sim3)) = periodTradePrices ex_sim3"
  using logTrade_rejects_malformed [of ex_trade2 ex_sim3]
  by (simp add: ex_trade2_def)

text \<open>
  C3. The value of the first call is to be returned by every later call, whatever happens
  to the configuration in between. With values \<open>[10]\<close> and costs \<open>[20]\<close> the first call
  returns 0 and stores it; the stored 0 fails the cache test, and after
  \<^verbatim>\<open>config.buyerValues = [30]\<close> the second call computes and returns 10.
\<close>

theorem getMaximumPossibleGainsFromTrade_zero_not_cached:
  "fst (getMaximumPossibleGainsFromTrade ex_sim_zero) = 0
   \<and> maximumPossibleGainsFromTrade (snd (getMaximumPossibleGainsFromTrade ex_sim_zero)) = Some 0
   \<and> fst (getMaximumPossibleGainsFromTrade
            ((snd (getMaximumPossibleGainsFromTrade ex_sim_zero))
               \<lparr>config := (config ex_sim_zero)\<lparr>buyerValues := Some [30]\<rparr>\<rparr>)) = 10"
  by (simp add: getMaximumPossibleGainsFromTrade_def ex_sim_zero_fields truthy_def Let_def)

text \<open>
  The extent of what construction writes to the configuration object: the two
  assignments of \<^verbatim>\<open>initAgents\<close> to \<^verbatim>\<open>buyerRate\<close> and \<^verbatim>\<open>sellerRate\<close> reach the caller's object
  and no other field of it is touched; \<^verbatim>\<open>runPeriod\<close> writes no field of the configuration.
\<close>

theorem config_changed_only_in_rates:
  "(config (snd (Simulation E cfg)))\<lparr>buyerRate := buyerRate cfg, sellerRate := sellerRate cfg\<rparr>
     = cfg
   \<and> (fst (Simulation E cfg) = None \<longrightarrow>
        buyerRate (config (snd (Simulation E cfg))) = rateOrDefault E (buyerRate cfg)
        \<and> sellerRate (config (snd (Simulation E cfg))) = rateOrDefault E (sellerRate cfg))
   \<and> config (snd (runPeriod E sync drv sim)) = config sim"
proof -
  have a: "(config (snd (Simulation E cfg)))
             \<lparr>buyerRate := buyerRate cfg, sellerRate := sellerRate cfg\<rparr> = cfg"
    using Simulation_config [where E = E and cfg = cfg]
      assignRates_reset [where E = E and cfg = cfg] by auto
  have b: "fst (Simulation E cfg) = None \<longrightarrow>
        buyerRate (config (snd (Simulation E cfg))) = rateOrDefault E (buyerRate cfg)
        \<and> sellerRate (config (snd (Simulation E cfg))) = rateOrDefault E (sellerRate cfg)"
    by (auto dest!: Simulation_config_ok simp add: assignRates_def Let_def)
  show ?thesis
    using a b runPeriod_frame [of E sync drv sim] by simp
qed

text \<open>The same at a configuration that gives no rates.\<close>

theorem config_changed_only_in_rates_witness:
  "fst (Simulation ex_ext ex_config) = None
   \<and> (config (snd (Simulation ex_ext ex_config)))
       \<lparr>buyerRate := buyerRate ex_config, sellerRate := sellerRate ex_config\<rparr> = ex_config
   \<and> buyerRate (config (snd (Simulation ex_ext ex_config))) = RateArray [1]
   \<and> sellerRate (config (snd (Simulation ex_ext ex_config))) = RateArray [1]
   \<and> config (snd (runPeriod ex_ext True ex_drive_trade ex_sim)) = config ex_sim"
  using config_changed_only_in_rates [where E = ex_ext and cfg = ex_config and sync = True
        and drv = ex_drive_trade and sim = ex_sim]
    ex_Simulation_ok
  by (simp add: rateOrDefault_def ex_ext_def ex_config_def)

text \<open>
  C4. The configuration object passed to the constructor is to be left as it is by
  construction and by running periods, and the constructor's own comment calls
  \<^verbatim>\<open>this.config\<close> a "copy of config as passed to constructor". The code keeps the caller's
  object and \<^verbatim>\<open>initAgents\<close> writes through it: a configuration passed without
  \<^verbatim>\<open>buyerRate\<close> is constructed without error and has \<^verbatim>\<open>buyerRate = [1]\<close> afterwards, so the
  caller's object differs from what was passed.
\<close>

theorem Simulation_mutates_caller_config:
  "fst (Simulation ex_ext ex_config) = None
   \<and> buyerRate ex_config = RateUndefined
   \<and> buyerRate (config (snd (Simulation ex_ext ex_config))) = RateArray [1]
   \<and> config (snd (Simulation ex_ext ex_config)) \<noteq> ex_config"
proof -
  have "buyerRate (config (snd (Simulation ex_ext ex_config))) = RateArray [1]"
    using ex_sim_config by (simp add: ex_sim_def)
  moreover have "buyerRate ex_config = RateUndefined"
    by (simp add: ex_config_def)
  ultimately show ?thesis
    using ex_Simulation_ok by auto
qed

text \<open>
  C5. At the end of a period without trades \<^verbatim>\<open>logPeriod\<close> adds no row to the ohlc log and
  adds the row (period, 0) to the volume log; when there are trades the ohlc row is
  (period, first price, maximum price, minimum price, last price).
\<close>

theorem logPeriod_ohlc_volume:
  assumes "logs sim ''ohlc'' \<noteq> None" and "logs sim ''volume'' \<noteq> None"
  shows "(periodTradePrices sim = [] \<longrightarrow>
            logRows (logPeriod sim) ''ohlc'' = logRows sim ''ohlc''
            \<and> logRows (logPeriod sim) ''volume''
                = logRows sim ''volume'' @ [[Num (real (period sim)), Num 0]])
       \<and> (periodTradePrices sim \<noteq> [] \<longrightarrow>
            logRows (logPeriod sim) ''ohlc'' = logRows sim ''ohlc'' @
              [[Num (real (period sim)),
                Num (hd (periodTradePrices sim)),
                Num (Max (set (periodTradePrices sim))),
                Num (Min (set (periodTradePrices sim))),
                Num (last (periodTradePrices sim))]])"
proof (cases "periodTradePrices sim")
  case Nil
  then show ?thesis
    using assms by (simp add: logPeriod_ohlc_rows logPeriod_volume_rows ohlc_def)
next
  case (Cons p ps)
  have "ohlc sim = Some [Num (real (period sim)), Num p, Num (Max (set (p # ps))),
                         Num (Min (set (p # ps))), Num (last (p # ps))]"
    unfolding ohlc_def Cons fold_max_Max fold_min_Min by simp
  then show ?thesis
    using assms Cons by (simp add: logPeriod_ohlc_rows)
qed

text \<open>C5 at a period without trades and at a period with the prices 50, 60, 40.\<close>

theorem logPeriod_ohlc_volume_witness:
  "logRows (logPeriod ex_sim_quiet) ''ohlc'' = []
   \<and> logRows (logPeriod ex_sim_quiet) ''volume'' = [[Num 1, Num 0]]
   \<and> logRows (logPeriod ex_sim_end) ''ohlc'' = [[Num 1, Num 50, Num 60, Num 40, Num 40]]"
proof -
  have q: "logs ex_sim_quiet ''ohlc'' \<noteq> None" "logs ex_sim_quiet ''volume'' \<noteq> None"
    "logRows ex_sim_quiet ''ohlc'' = []" "logRows ex_sim_quiet ''volume'' = []"
    "periodTradePrices ex_sim_quiet = []" "period ex_sim_quiet = 1"
    by (simp_all add: ex_logs_exist initLogs_always logRows_def newLog_def)
      (simp_all add: ex_sim_quiet_def ex_sim_def Simulation_def case_prod_beta Let_def
        initAgents_frame split: option.split)
  have e: "logs ex_sim_end ''ohlc'' \<noteq> None" "logs ex_sim_end ''volume'' \<noteq> None"
    "logRows ex_sim_end ''ohlc'' = []"
    "periodTradePrices ex_sim_end = [50, 60, 40]" "period ex_sim_end = 1"
    by (simp_all add: ex_logs_exist initLogs_always logRows_def newLog_def)
      (simp_all add: ex_sim_end_def)
  show ?thesis
    using logPeriod_ohlc_volume [OF q(1) q(2)] logPeriod_ohlc_volume [OF e(1) e(2)]
    by (simp add: q e)
qed

text \<open>
  C6. \<^verbatim>\<open>logPeriod\<close> adds a row to the effalloc log exactly when
  \<^verbatim>\<open>getMaximumPossibleGainsFromTrade()\<close> is positive, and the row is
  (period, 100 * (sum of the agents' money) / that maximum).
\<close>

theorem logPeriod_effalloc:
  assumes "logs sim ''effalloc'' \<noteq> None"
  shows "logRows (logPeriod sim) ''effalloc'' =
         logRows sim ''effalloc'' @
           (if fst (getMaximumPossibleGainsFromTrade sim) > 0
            then [[Num (real (period sim)),
                   Num (100 * sum_list (map (\<lambda>A. money (agent_inventory A)) (agents (pool sim)))
                        / fst (getMaximumPossibleGainsFromTrade sim))]]
            else [])"
proof -
  define s3 where "s3 =
    writeLog ''volume''
      (Some [Num (real (period sim)), Num (real (length (periodTradePrices sim)))])
      (writeLog ''ohlc'' (ohlc (writeLog ''profit''
          (Some (map Num (map (\<lambda>A. money (agent_inventory A)) (agents (pool sim))))) sim))
        (writeLog ''profit''
          (Some (map Num (map (\<lambda>A. money (agent_inventory A)) (agents (pool sim))))) sim))"
  have g: "fst (getMaximumPossibleGainsFromTrade s3) = fst (getMaximumPossibleGainsFromTrade sim)"
    by (rule getMax_depends) (simp_all add: s3_def writeLog_fields)
  have l: "logs s3 ''effalloc'' \<noteq> None" "logRows s3 ''effalloc'' = logRows sim ''effalloc''"
    "period s3 = period sim"
    using assms by (simp_all add: s3_def writeLog_logs writeLog_logRows writeLog_fields)
  have "logPeriod sim =
        (let finalMoneySum = fold (\<lambda>m acc. acc + m)
                               (map (\<lambda>A. money (agent_inventory A)) (agents (pool sim))) 0;
             r = getMaximumPossibleGainsFromTrade s3
         in (if fst r > 0
             then writeLog ''effalloc''
                    (Some [Num (real (period (snd r))), Num (100 * (finalMoneySum / fst r))])
                    (snd r)
             else snd r))\<lparr>periodTradePrices := []\<rparr>"
    using l(1) by (simp add: logPeriod_def Let_def s3_def writeLog_fields case_prod_beta)
  then show ?thesis
    using l by (simp add: Let_def g writeLog_logRows logRows_update_irrelevant logRows_getMax
        getMax_fields fold_add_sum_list)
qed

text \<open>C6 at two agents holding 30 each, with maximum gains of 60.\<close>

theorem logPeriod_effalloc_witness:
  "fst (getMaximumPossibleGainsFromTrade ex_sim_end) = 60
   \<and> logRows (logPeriod ex_sim_end) ''effalloc'' = [[Num 1, Num 100]]"
proof -
  have e: "logs ex_sim_end ''effalloc'' \<noteq> None" "logRows ex_sim_end ''effalloc'' = []"
    by (simp_all add: ex_logs_exist initLogs_always logRows_def newLog_def)
  have c: "config ex_sim_end = config ex_sim" "period ex_sim_end = 1"
    "maximumPossibleGainsFromTrade ex_sim_end = None"
    by (simp_all add: ex_sim_end_def) (simp add: ex_sim_def Simulation_fields)
  have g: "fst (getMaximumPossibleGainsFromTrade ex_sim_end) = 60"
    by (simp add: getMaximumPossibleGainsFromTrade_def c ex_sim_config ex_config_def
        truthy_def Let_def)
  have m: "map (\<lambda>A. money (agent_inventory A)) (agents (pool ex_sim_end)) = [30, 30]"
    by (simp add: ex_sim_end_def)
  show ?thesis
    using logPeriod_effalloc [OF e(1)] by (simp add: g m e(2) c(2))
qed

text \<open>
  C7. For a trade that \<^verbatim>\<open>logTrade\<close> accepts, the row appended to the trade log is
  (period, t, t - period * periodDuration, price, buyer id, buyer's unit value at its
  current inventory, value - price, seller id, seller's unit cost at its current
  inventory, price - cost), and the price is appended to \<^verbatim>\<open>periodTradePrices\<close>.
\<close>

theorem logTrade_row:
  assumes "logTrade ts sim = (None, sim')"
    and "xm_idCol (xMarket sim) = Some idCol"
    and "agentsById (pool sim) (xm_a (xMarket sim) ! (buyA ts ! 0) ! idCol) = Some buyer"
    and "agentsById (pool sim) (xm_a (xMarket sim) ! (sellA ts ! 0) ! idCol) = Some seller"
    and "logs sim ''trade'' \<noteq> None"
  shows "logRows sim' ''trade'' = logRows sim ''trade'' @
          [[Num (real (period sim)),
            Num (ts_t ts),
            Num (ts_t ts - real (period sim) * periodDuration_sim sim),
            Num (prices ts ! 0),
            Num (xm_a (xMarket sim) ! (buyA ts ! 0) ! idCol),
            Num (unitValueFunction buyer (agent_inventory buyer)),
            Num (unitValueFunction buyer (agent_inventory buyer) - prices ts ! 0),
            Num (xm_a (xMarket sim) ! (sellA ts ! 0) ! idCol),
            Num (unitCostFunction seller (agent_inventory seller)),
            Num (prices ts ! 0 - unitCostFunction seller (agent_inventory seller))]]
         \<and> periodTradePrices sim' = periodTradePrices sim @ [prices ts ! 0]"
  using assms
  by (auto simp add: logTrade_def lookupId_def elemAt_def tradeOutput_def writeLog_logRows
        writeLog_fields logRows_update_irrelevant truthy_def Let_def
        split: option.splits sum.splits if_splits)

text \<open>
  C7 at a trade at price 50 in period 3 between a buyer of value 80 and a seller of cost
  20.
\<close>

theorem logTrade_row_witness:
  "fst (logTrade ex_trade ex_sim3) = None
   \<and> logRows (snd (logTrade ex_trade ex_sim3)) ''trade'' =
       [[Num 3, Num 3500, Num 500, Num 50, Num 1, Num 80, Num 30, Num 2, Num 20, Num 30]]"
proof -
  have 1: "logTrade ex_trade ex_sim3 = (None, snd (logTrade ex_trade ex_sim3))"
    using ex_logTrade_ok by (simp add: prod_eq_iff)
  have 2: "xm_idCol (xMarket ex_sim3) = Some 2"
    by (simp add: ex_sim3_def ex_sim_market)
  have 3: "agentsById (pool ex_sim3) (xm_a (xMarket ex_sim3) ! (buyA ex_trade ! 0) ! 2)
             = Some ex_buyer"
    using ex_buyer_found by (simp add: ex_sim3_def ex_trade_def ex_orders_def)
  have 4: "agentsById (pool ex_sim3) (xm_a (xMarket ex_sim3) ! (sellA ex_trade ! 0) ! 2)
             = Some ex_seller"
    using ex_seller_found by (simp add: ex_sim3_def ex_trade_def ex_orders_def)
  have 5: "logs ex_sim3 ''trade'' \<noteq> None"
    by (simp add: ex_sim3_def ex_sim_logs initLogs_always)
  have 6: "logRows ex_sim3 ''trade'' = []"
    by (simp add: ex_sim3_def ex_sim_logs initLogs_always logRows_def newLog_def)
  have 7: "period ex_sim3 = 3" "periodDuration_sim ex_sim3 = 1000"
    "xm_a (xMarket ex_sim3) = ex_orders"
    by (simp_all add: ex_sim3_def ex_sim_duration)
  show ?thesis
    using logTrade_row [OF 1 2 3 4 5] ex_logTrade_ok
    by (simp add: 6 7 ex_trade_def ex_orders_def ex_buyer_def ex_seller_def)
qed

text \<open>
  C8. On a newly constructed simulation with \<^verbatim>\<open>periods = N\<close>, \<open>N \<ge> 0\<close>, the call
  \<^verbatim>\<open>run({sync:true})\<close> ends, and when it returns the period counter is \<open>N\<close> and the periods
  logged at the period ends are 1, 2, ..., \<open>N\<close>, each once and in this order.
\<close>

theorem run_sync_counts_periods:
  assumes "Simulation E cfg = (None, sim)" and "0 \<le> periods cfg"
  shows "\<exists>c sim'.
           run E drv (Some \<lparr>opt_sync = Some True, opt_update = None, opt_delay = None\<rparr>) sim
             = Some (c, [], sim')
           \<and> (c = Done \<longrightarrow>
                int (period sim') = periods cfg
                \<and> map hd (logRows sim' ''volume'')
                    = map (\<lambda>i. Num (real i)) [1..<Suc (nat (periods cfg))])"
proof -
  have s: "period sim = 0" "logs sim = initLogs cfg" "periods (config sim) = periods cfg"
    using assms(1) Simulation_fields [of E cfg] Simulation_config_ok [of E cfg]
    by (simp_all add: assignRates_periods)
  have v: "logs sim ''volume'' \<noteq> None" "logRows sim ''volume'' = []"
    by (simp_all add: s initLogs_always logRows_def newLog_def)
  obtain c sim' where r: "run_sync_loop E drv None 0 sim = Some (c, sim')"
    and p: "c = Done \<longrightarrow>
             int (period sim') = periods (config sim)
             \<and> map hd (logRows sim' ''volume'')
                 = map hd (logRows sim ''volume'')
                   @ map (\<lambda>i. Num (real i)) [Suc (period sim)..<Suc (nat (periods (config sim)))]"
    using run_sync_loop_counts [OF refl, where s = sim and E = E and drv = drv and k = 0]
      assms(2) s v(1) by auto
  have "run E drv (Some \<lparr>opt_sync = Some True, opt_update = None, opt_delay = None\<rparr>) sim
          = Some (c, [], sim')"
    by (simp add: run_def run_params_def r)
  then show ?thesis
    using p by (simp add: s v(2) del: upt_Suc)
qed

text \<open>C8 at two periods with one trade each.\<close>

theorem run_sync_counts_periods_witness:
  "\<exists>sim'. run ex_ext (\<lambda>_. ex_drive_trade)
            (Some \<lparr>opt_sync = Some True, opt_update = None, opt_delay = None\<rparr>) ex_sim
            = Some (Done, [], sim')
          \<and> period sim' = 2
          \<and> map hd (logRows sim' ''volume'') = [Num 1, Num 2]"
proof -
  have ok: "Simulation ex_ext ex_config = (None, ex_sim)"
    using ex_Simulation_ok by (simp add: ex_sim_def prod_eq_iff)
  have p: "(0::int) \<le> periods ex_config" "periods ex_config = 2"
    by (simp_all add: ex_config_def)
  have inv: "xm_idCol (xMarket ex_sim) = Some 2 \<and> map agent_id (agents (pool ex_sim)) = [1, 2]"
    by (simp add: ex_sim_market ex_sim_pool ex_buyer_def ex_seller_def)
  obtain s' where "run_sync_loop ex_ext (\<lambda>_. ex_drive_trade) None 0 ex_sim = Some (Done, s')"
    using run_sync_loop_Done [where P = "\<lambda>s. xm_idCol (xMarket s) = Some 2
        \<and> map agent_id (agents (pool s)) = [1, 2]" and E = ex_ext
        and drv = "\<lambda>_. ex_drive_trade" and s = ex_sim and k = 0, OF ex_period_ok inv refl]
    by blast
  then have d: "run ex_ext (\<lambda>_. ex_drive_trade)
            (Some \<lparr>opt_sync = Some True, opt_update = None, opt_delay = None\<rparr>) ex_sim
            = Some (Done, [], s')"
    by (simp add: run_def run_params_def)
  have u: "map (\<lambda>i. Num (real i)) [1..<Suc (nat (periods ex_config))] = [Num 1, Num 2]"
    by (simp add: p(2) eval_nat_numeral)
  show ?thesis
    using run_sync_counts_periods [OF ok p(1), of "\<lambda>_. ex_drive_trade"] d
    unfolding u by (simp add: p(2))
qed

text \<open>
  C9. For a preorder or reject event whose agent is not in \<^verbatim>\<open>agentsById\<close>, or whose order
  has neither a usable buy price nor a usable sell price, the listener writes no row and
  throws nothing: the simulation is unchanged.
\<close>

theorem logOrder_gap_skipped:
  assumes "st = Preorder ord \<or> st = Reject ord"
    and "agentsById (pool sim) (ord_id ord) = None
         \<or> (\<not> truthy (buyPrice ord) \<and> \<not> truthy (sellPrice ord))"
  shows "deliver E st sim = (None, sim)"
  using assms
  by (auto simp add: deliver_def logOrder_def Let_def split: option.splits)

text \<open>C9 at a preorder of an agent id the pool does not hold.\<close>

theorem logOrder_gap_skipped_witness:
  "agentsById (pool ex_sim3) (ord_id ex_order_unknown) = None
   \<and> deliver ex_ext (Preorder ex_order_unknown) ex_sim3 = (None, ex_sim3)"
proof -
  have "agentsById (pool ex_sim3) (ord_id ex_order_unknown) = None"
    by (simp add: ex_sim3_def ex_sim_pool agentsById_def ex_buyer_def ex_seller_def
        ex_order_unknown_def)
  then show ?thesis
    using logOrder_gap_skipped [of "Preorder ex_order_unknown" ex_order_unknown ex_sim3 ex_ext]
    by simp
qed



end
